theory Spec2Isabelle
  imports Main
begin

section \<open>RDF terms, statements and the namespace registry\<close>

text \<open>
  The widgets of \<^verbatim>\<open>src/widgets/peoplePicker.js\<close> work on the statements of a
  linked-data store. A term carries a string (\<^verbatim>\<open>node.value\<close> in the source); a
  statement is a quad of subject, predicate, object and the graph it came from
  (\<^verbatim>\<open>st.why\<close>). Strings are lists of 8-bit characters, so the model covers the
  URLs and names whose code units lie below 256.
\<close>

datatype node = NamedNode string | Literal string | BlankNode string

fun node_value :: "node \<Rightarrow> string" where
  "node_value (NamedNode u) = u"
| "node_value (Literal v) = v"
| "node_value (BlankNode i) = i"

record statement =
  subject :: node
  predicate :: node
  object :: node
  why :: node

text \<open>
  Modelled from the spec: the namespace registry \<^verbatim>\<open>../ns\<close> is not among the sources;
  the spec calls its entries well-known predicate and class identifiers. Each
  namespace maps a local name to the named node under the vocabulary's prefix.
\<close>

definition ns_rdf :: "string \<Rightarrow> node" where
  "ns_rdf l = NamedNode (''http://www.w3.org/1999/02/22-rdf-syntax-ns#'' @ l)"

definition ns_vcard :: "string \<Rightarrow> node" where
  "ns_vcard l = NamedNode (''http://www.w3.org/2006/vcard/ns#'' @ l)"

definition ns_foaf :: "string \<Rightarrow> node" where
  "ns_foaf l = NamedNode (''http://xmlns.com/foaf/0.1/'' @ l)"

definition ns_solid :: "string \<Rightarrow> node" where
  "ns_solid l = NamedNode (''http://www.w3.org/ns/solid/terms#'' @ l)"

section \<open>Errors and the graph store\<close>

text \<open>
  An error value is an \<^verbatim>\<open>Error\<close> with its message, a failure of the web
  client, which carries the URL of its response (\<^verbatim>\<open>err.xhr.responseURL\<close>), or
  the \<^verbatim>\<open>TypeError\<close> of reading a property of \<^verbatim>\<open>undefined\<close>.
\<close>

datatype js_error = Error string | XhrError string | TypeError string

text \<open>
  Modelled from the spec: the store \<^verbatim>\<open>kb\<close> (module \<^verbatim>\<open>../store\<close>) is not among
  the sources. The spec describes it as the statements of a shared graph, read
  in the order in which the store holds them: a list of statements.
\<close>

type_synonym store = "statement list"

text \<open>
  Modelled from the spec: the store's pattern match over (subject, predicate,
  object, graph), with any position a wildcard (\<open>None\<close>, an argument left out
  or \<^verbatim>\<open>null\<close> in the source).
\<close>

definition matches :: "node option \<Rightarrow> node option \<Rightarrow> node option \<Rightarrow> node option \<Rightarrow> statement \<Rightarrow> bool" where
  "matches s p ob g st \<longleftrightarrow>
     (s = None \<or> s = Some (subject st)) \<and>
     (p = None \<or> p = Some (predicate st)) \<and>
     (ob = None \<or> ob = Some (object st)) \<and>
     (g = None \<or> g = Some (why st))"

text \<open>
  Modelled from the spec: \<^verbatim>\<open>kb.statementsMatching\<close> and \<^verbatim>\<open>kb.match\<close> answer with
  the matching statements in the order of the store.
\<close>

definition statementsMatching :: "node option \<Rightarrow> node option \<Rightarrow> node option \<Rightarrow> node option \<Rightarrow> store \<Rightarrow> statement list" where
  "statementsMatching s p ob g kb = filter (matches s p ob g) kb"

definition kb_match :: "node option \<Rightarrow> node option \<Rightarrow> node option \<Rightarrow> node option \<Rightarrow> store \<Rightarrow> statement list" where
  "kb_match s p ob g kb = statementsMatching s p ob g kb"

text \<open>
  Modelled from the spec: \<^verbatim>\<open>kb.any(s, p)\<close> is the object of the first statement
  with that subject and predicate, or \<^verbatim>\<open>undefined\<close> (\<open>None\<close>) when there is
  none.
\<close>

definition kb_any :: "node \<Rightarrow> node \<Rightarrow> store \<Rightarrow> node option" where
  "kb_any s p kb =
     (case statementsMatching (Some s) (Some p) None None kb of
        [] \<Rightarrow> None
      | st # _ \<Rightarrow> Some (object st))"

text \<open>
  Modelled from the spec: \<^verbatim>\<open>kb.add\<close> adds one statement. It appends: the
  spec's notes on overlapping adds say that a race can duplicate a membership
  statement, so the store itself does not filter duplicates.
\<close>

definition kb_add :: "statement \<Rightarrow> store \<Rightarrow> store" where
  "kb_add st kb = kb @ [st]"

text \<open>
  Modelled from the spec: \<^verbatim>\<open>kb.remove\<close> removes one statement, and fails when
  the statement is not on the store.
\<close>

definition kb_remove :: "statement \<Rightarrow> store \<Rightarrow> js_error + store" where
  "kb_remove st kb =
     (if st \<in> set kb then Inr (remove1 st kb)
      else Inl (Error ''Statement to be removed is not on store''))"

text \<open>\<^verbatim>\<open>rdf.st\<close> builds a statement from its four terms.\<close>

definition rdf_st :: "node \<Rightarrow> node \<Rightarrow> node \<Rightarrow> node \<Rightarrow> statement" where
  "rdf_st s p ob g = \<lparr>subject = s, predicate = p, object = ob, why = g\<rparr>"

section \<open>Promises\<close>

text \<open>
  A promise settles once: \<^verbatim>\<open>resolve\<close> and \<^verbatim>\<open>reject\<close> on a settled promise
  change nothing. Several functions of the source call \<^verbatim>\<open>reject\<close> without
  returning, so the order of the calls decides the outcome.
\<close>

datatype 'a promise = Pending | Resolved 'a | Rejected js_error

fun resolve :: "'a promise \<Rightarrow> 'a \<Rightarrow> 'a promise" where
  "resolve Pending v = Resolved v"
| "resolve p v = p"

fun reject :: "'a promise \<Rightarrow> js_error \<Rightarrow> 'a promise" where
  "reject Pending e = Rejected e"
| "reject p e = p"

section \<open>PeoplePicker.findGroupIndex\<close>

text \<open>
  \<^verbatim>\<open>bookUrl.replace(/book\.ttl(#.*)?$/, '')\<close>: the pattern has no flags, so
  \<^verbatim>\<open>$\<close> is the end of the input, \<^verbatim>\<open>.\<close> is any character but a line
  terminator, and the leftmost position at which the rest of the input matches
  is the one replaced. From such a position the match runs to the end of the
  input; where there is none the string is returned as it is.
\<close>

definition lineTerminator :: "char \<Rightarrow> bool" where
  "lineTerminator c \<longleftrightarrow> c = CHR 0x0A \<or> c = CHR 0x0D"

definition bookSuffixAt :: "string \<Rightarrow> bool" where
  "bookSuffixAt r \<longleftrightarrow>
     take 8 r = ''book.ttl'' \<and>
     (case drop 8 r of
        [] \<Rightarrow> True
      | c # f \<Rightarrow> c = CHR ''#'' \<and> list_all (\<lambda>d. \<not> lineTerminator d) f)"

fun replaceBookSuffix :: "string \<Rightarrow> string" where
  "replaceBookSuffix [] = []"
| "replaceBookSuffix (c # cs) =
     (if bookSuffixAt (c # cs) then [] else c # replaceBookSuffix cs)"

record group_index =
  gi_bookBaseUrl :: string
  gi_groupIndexUrl :: string
  gi_groupContainerUrl :: string

text \<open>
  \<open>requested\<close> lists the URLs handed to the fetcher, \<open>settled\<close> is the state of
  the returned promise once the fetcher's callback has run. When the
  registration has no instance statement the source rejects and goes on to read
  \<^verbatim>\<open>instance[0].object\<close>, which throws inside the callback: the promise stays
  rejected.
\<close>

record find_outcome =
  requested :: "string list"
  settled :: "group_index promise"

definition findGroupIndex :: "string \<Rightarrow> bool \<Rightarrow> js_error \<Rightarrow> store \<Rightarrow> find_outcome" where
  "findGroupIndex typeIndexUrl ok err kb =
     \<lparr>requested = [typeIndexUrl],
      settled =
        (if \<not> ok then reject Pending err
         else
           let bookRegistrations =
                 statementsMatching None (Some (ns_solid ''forClass''))
                   (Some (ns_vcard ''AddressBook'')) None kb
           in
             if length bookRegistrations < 1
             then reject Pending (Error ''no address book registered in the solid type index'')
             else
               let registrationSubject = subject (bookRegistrations ! 0);
                   instance =
                     statementsMatching (Some registrationSubject)
                       (Some (ns_solid ''instance'')) None None kb;
                   p = (if instance = []
                        then reject Pending (Error ''incomplete address book registration'')
                        else Pending)
               in
                 (case instance of
                    [] \<Rightarrow> p
                  | i # _ \<Rightarrow>
                      let bookUrl = node_value (object i);
                          base = replaceBookSuffix bookUrl
                      in resolve p
                           \<lparr>gi_bookBaseUrl = base,
                            gi_groupIndexUrl = base @ ''groups.ttl'',
                            gi_groupContainerUrl = base @ ''Group/''\<rparr>))\<rparr>"

section \<open>GroupPicker.loadGroups\<close>

text \<open>
  The callback of \<^verbatim>\<open>kb.fetcher.nowOrWhenFetched(this.groupIndexUrl, ...)\<close>
  receives \<open>ok\<close> and \<open>err\<close> from the fetcher and reads the store as it is then.
\<close>

record group_picker =
  gp_bookBaseUrl :: string
  gp_groupIndexUrl :: string

definition loadGroups :: "group_picker \<Rightarrow> bool \<Rightarrow> js_error \<Rightarrow> store \<Rightarrow> node list promise" where
  "loadGroups gp ok err kb =
     (if \<not> ok then reject Pending err
      else
        let groupNodes =
              map object
                (kb_match (Some (NamedNode (gp_bookBaseUrl gp @ ''book.ttl#this'')))
                   (Some (ns_vcard ''includesGroup'')) None None kb)
        in resolve Pending groupNodes)"

section \<open>PeoplePicker.createNewGroup\<close>

text \<open>
  Modelled from the spec: the web client's \<^verbatim>\<open>patch\<close> is an outside service that
  reports success or failure for one resource. Its two outcomes and the order in
  which the two requests settle are inputs. The identifier \<^verbatim>\<open>uuid.v4()\<close> is an
  input as well.
\<close>

datatype patch_outcome = PatchOk | PatchFailed string

record patch_request =
  patch_url :: string
  toDelete :: "statement list"
  toInsert :: "statement list"

record new_group =
  ng_groupNode :: node
  ng_groupGraphNode :: node

record create_outcome =
  patches :: "patch_request list"
  created :: "new_group promise"
  kb_after :: store

definition groupStatements :: "node \<Rightarrow> node \<Rightarrow> statement list" where
  "groupStatements groupNode namedGraph =
     [rdf_st groupNode (ns_rdf ''type'') (ns_vcard ''Group'') namedGraph,
      rdf_st groupNode (ns_vcard ''fn'') (Literal ''Untitled Group'') namedGraph]"

definition kb_add_all :: "statement list \<Rightarrow> store \<Rightarrow> store" where
  "kb_add_all sts kb = foldl (\<lambda>k st. kb_add st k) kb sts"

definition patchPromise :: "patch_outcome \<Rightarrow> unit promise" where
  "patchPromise out = (case out of PatchOk \<Rightarrow> Resolved () | PatchFailed u \<Rightarrow> Rejected (XhrError u))"

definition mirror :: "patch_outcome \<Rightarrow> statement list \<Rightarrow> store \<Rightarrow> store" where
  "mirror out sts kb = (case out of PatchOk \<Rightarrow> kb_add_all sts kb | PatchFailed u \<Rightarrow> kb)"

text \<open>\<^verbatim>\<open>Promise.all\<close> rejects with the rejection that comes first in time.\<close>

fun firstRejection :: "'a promise list \<Rightarrow> js_error option" where
  "firstRejection [] = None"
| "firstRejection (Rejected e # ps) = Some e"
| "firstRejection (p # ps) = firstRejection ps"

definition createGroupError :: "js_error \<Rightarrow> js_error" where
  "createGroupError err =
     (case err of
        XhrError responseURL \<Rightarrow>
          Error (''Couldn't create new group.  PATCH failed for ('' @ responseURL @ '')'')
      | _ \<Rightarrow> TypeError ''Cannot read property 'responseURL' of undefined'')"

definition createNewGroup ::
  "string \<Rightarrow> string \<Rightarrow> patch_outcome \<Rightarrow> patch_outcome \<Rightarrow> bool \<Rightarrow> store \<Rightarrow> create_outcome" where
  "createNewGroup bookBaseUrl uuid_v4 graphOutcome indexOutcome indexSettlesFirst kb =
     (let groupIndexNode = NamedNode (bookBaseUrl @ ''groups.ttl'');
          graphUrl = bookBaseUrl @ ''Group/'' @ take 8 uuid_v4 @ ''.ttl'';
          groupGraphNode = NamedNode graphUrl;
          groupNode = NamedNode (graphUrl @ ''#this'');
          targets = [(groupGraphNode, graphOutcome), (groupIndexNode, indexOutcome)];
          requests =
            map (\<lambda>(namedGraph, out).
                   \<lparr>patch_url = node_value namedGraph, toDelete = [],
                    toInsert = groupStatements groupNode namedGraph\<rparr>) targets;
          settling = (if indexSettlesFirst then rev targets else targets);
          kb' = foldl (\<lambda>k (namedGraph, out). mirror out (groupStatements groupNode namedGraph) k)
                  kb settling
      in \<lparr>patches = requests,
          created =
            (case firstRejection (map (\<lambda>(namedGraph, out). patchPromise out) settling) of
               None \<Rightarrow> Resolved \<lparr>ng_groupNode = groupNode, ng_groupGraphNode = groupGraphNode\<rparr>
             | Some err \<Rightarrow> Rejected (createGroupError err)),
          kb_after = kb'\<rparr>)"

section \<open>GroupBuilder\<close>

text \<open>
  The builder keeps its graph, its group node and the optional changed-callback;
  \<open>groupChangedCb\<close> says whether one was supplied. What the methods change is the
  store, the children of \<^verbatim>\<open>this.element\<close> and the calls received by the
  changed-callback (error, change type and agent; an argument left out is
  \<open>None\<close>); the callback is taken to return normally. Of a rendered pane the
  model keeps the parts that depend on the store; styles and event wiring are
  left out.
\<close>

record group_builder =
  groupGraph :: node
  groupNode :: node
  groupChangedCb :: bool

datatype pane_part = GroupNameLabel string | PersonDiv node | Copy | DoneBuildingButton

text \<open>
  Modelled from the spec: \<^verbatim>\<open>errorMessageBlock\<close> (module \<^verbatim>\<open>./error\<close>) is not among
  the sources; it makes the block that shows an error message in the pane.
\<close>

datatype dom = ErrorMessageBlock string | DropContainer "pane_part list"

type_synonym changed_call = "js_error option \<times> string option \<times> node option"

record world =
  w_kb :: store
  w_element :: "dom list"
  w_calls :: "changed_call list"

text \<open>
  The \<^verbatim>\<open>escape-html\<close> package replaces five characters: the double quote,
  the ampersand, the apostrophe and the two angle brackets.
\<close>

definition escapeChar :: "char \<Rightarrow> string" where
  "escapeChar c =
     (if c = CHR 0x22 then ''&quot;''
      else if c = CHR ''&'' then ''&amp;''
      else if c = CHR 0x27 then ''&#39;''
      else if c = CHR ''<'' then ''&lt;''
      else if c = CHR ''>'' then ''&gt;''
      else [c])"

definition escape :: "string \<Rightarrow> string" where
  "escape s = concat (map escapeChar s)"

definition getWithDefault :: "node \<Rightarrow> node \<Rightarrow> string \<Rightarrow> store \<Rightarrow> string" where
  "getWithDefault s p defaultValue kb =
     (case kb_any s p kb of Some ob \<Rightarrow> node_value ob | None \<Rightarrow> defaultValue)"

definition onGroupChanged ::
  "group_builder \<Rightarrow> js_error option \<Rightarrow> string option \<Rightarrow> node option \<Rightarrow> world \<Rightarrow> world" where
  "onGroupChanged b err changeType agent w =
     (if groupChangedCb b then w\<lparr>w_calls := w_calls w @ [(err, changeType, agent)]\<rparr> else w)"

definition render :: "group_builder \<Rightarrow> world \<Rightarrow> world" where
  "render b w =
     (let groupNameLabel =
            GroupNameLabel (getWithDefault (groupNode b) (ns_vcard ''fn'') ''Untitled Group'' (w_kb w));
          members =
            (if kb_any (groupNode b) (ns_vcard ''hasMember'') (w_kb w) \<noteq> None
             then map (\<lambda>statement. PersonDiv (object statement))
                    (kb_match (Some (groupNode b)) (Some (ns_vcard ''hasMember'')) None None (w_kb w))
             else [Copy]);
          dropContainer = DropContainer ([groupNameLabel] @ members @ [DoneBuildingButton])
      in w\<lparr>w_element := [dropContainer]\<rparr>)"

text \<open>
  \<open>add\<close> is the callback handed to the fetcher for \<open>webId\<close>, run on the world as
  it is when the fetcher answers (\<open>ok\<close> and \<open>err\<close> are the fetcher's answer);
  the promise is the one \<^verbatim>\<open>add\<close> returned. A second \<^verbatim>\<open>add\<close> of an
  identifier finds its resource fetched already and runs on the world the first
  call left.
\<close>

definition add :: "group_builder \<Rightarrow> string \<Rightarrow> bool \<Rightarrow> js_error \<Rightarrow> world \<Rightarrow> node promise \<times> world" where
  "add b webId ok err w =
     (if \<not> ok then (reject Pending err, onGroupChanged b (Some err) None None w)
      else
        let webIdNode = NamedNode webId;
            rdfClass = kb_any webIdNode (ns_rdf ''type'') (w_kb w);
            p1 = (if rdfClass = None \<or> rdfClass \<noteq> Some (ns_foaf ''Person'')
                  then reject Pending (Error ''Only people supported right now'')
                  else Pending);
            w1 = (if length (kb_match (Some (groupNode b)) (Some (ns_vcard ''hasMember''))
                               (Some webIdNode) (Some (groupGraph b)) (w_kb w)) < 1
                  then w\<lparr>w_kb := kb_add (rdf_st (groupNode b) (ns_vcard ''hasMember'') webIdNode
                                             (groupGraph b)) (w_kb w)\<rparr>
                  else w);
            w2 = onGroupChanged b None (Some ''added'') (Some webIdNode) w1;
            p2 = resolve p1 webIdNode
        in (p2, render b w2))"

text \<open>
  The click handler made by \<^verbatim>\<open>handleRemove(webIdNode)\<close>: first the
  \<^verbatim>\<open>try\<close>/\<^verbatim>\<open>catch\<close> statement, then \<^verbatim>\<open>this.render()\<close>.
\<close>

definition handleRemove_try :: "group_builder \<Rightarrow> node \<Rightarrow> world \<Rightarrow> world" where
  "handleRemove_try b webIdNode w =
     (case kb_remove (rdf_st (groupNode b) (ns_vcard ''hasMember'') webIdNode (groupGraph b))
             (w_kb w) of
        Inr kb' \<Rightarrow> onGroupChanged b None (Some ''removed'') (Some webIdNode) (w\<lparr>w_kb := kb'\<rparr>)
      | Inl err \<Rightarrow>
          let name = kb_any webIdNode (ns_foaf ''name'') (w_kb w)
          in w\<lparr>w_element := w_element w @
               [case name of
                  Some n \<Rightarrow>
                    if node_value n \<noteq> []
                    then ErrorMessageBlock (escape (''Could not remove '' @ node_value n))
                    else ErrorMessageBlock (escape (''Could not remove '' @ node_value webIdNode))
                | None \<Rightarrow>
                    ErrorMessageBlock (escape (''Could not remove '' @ node_value webIdNode))]\<rparr>)"

definition handleRemove :: "group_builder \<Rightarrow> node \<Rightarrow> world \<Rightarrow> world" where
  "handleRemove b webIdNode w = render b (handleRemove_try b webIdNode w)"

fun isErrorMessageBlock :: "dom \<Rightarrow> bool" where
  "isErrorMessageBlock (ErrorMessageBlock msg) = True"
| "isErrorMessageBlock (DropContainer parts) = False"

fun setGroupName_forEach :: "group_builder \<Rightarrow> string \<Rightarrow> statement list \<Rightarrow> store \<Rightarrow> js_error + store" where
  "setGroupName_forEach b name [] kb = Inr kb"
| "setGroupName_forEach b name (st # sts) kb =
     (case kb_remove st kb of
        Inl err \<Rightarrow> Inl err
      | Inr kb1 \<Rightarrow>
          setGroupName_forEach b name sts
            (kb_add (rdf_st (groupNode b) (ns_vcard ''fn'') (Literal name) (why st)) kb1))"

definition setGroupName :: "group_builder \<Rightarrow> string \<Rightarrow> store \<Rightarrow> js_error + store" where
  "setGroupName b name kb =
     setGroupName_forEach b name
       (kb_match (Some (groupNode b)) (Some (ns_vcard ''fn'')) None None kb) kb"

section \<open>Example values\<close>

definition exampleBase :: string where
  "exampleBase = ''https://example.org/profile/''"

definition exampleTypeIndex :: string where
  "exampleTypeIndex = ''https://example.org/settings/privateTypeIndex.ttl''"

definition exampleRegistration :: "statement list" where
  "exampleRegistration =
     [rdf_st (NamedNode ''https://example.org/settings/privateTypeIndex.ttl#ab'')
        (ns_solid ''forClass'') (ns_vcard ''AddressBook'') (NamedNode exampleTypeIndex),
      rdf_st (NamedNode ''https://example.org/settings/privateTypeIndex.ttl#ab'')
        (ns_solid ''instance'') (NamedNode ''https://example.org/profile/book.ttl#this'')
        (NamedNode exampleTypeIndex)]"

definition exampleUuid :: string where
  "exampleUuid = ''110ec58a-a0f2-4ac4-8393-c866d813b8d1''"

definition exampleGraph :: node where
  "exampleGraph = NamedNode ''https://example.org/profile/Group/110ec58a.ttl''"

definition exampleGroup :: node where
  "exampleGroup = NamedNode ''https://example.org/profile/Group/110ec58a.ttl#this''"

definition exampleIndex :: node where
  "exampleIndex = NamedNode ''https://example.org/profile/groups.ttl''"

definition exampleBuilder :: group_builder where
  "exampleBuilder = \<lparr>groupGraph = exampleGraph, groupNode = exampleGroup, groupChangedCb = True\<rparr>"

definition bob :: string where
  "bob = ''https://bob.example/profile#me''"

definition bobIsMember :: statement where
  "bobIsMember = rdf_st exampleGroup (ns_vcard ''hasMember'') (NamedNode bob) exampleGraph"

definition bobName :: statement where
  "bobName = rdf_st (NamedNode bob) (ns_foaf ''name'') (Literal ''Bob'') (NamedNode ''https://bob.example/profile'')"

definition emptyWorld :: world where
  "emptyWorld = \<lparr>w_kb = [], w_element = [], w_calls = []\<rparr>"

definition exampleRenamed :: store where
  "exampleRenamed =
     [rdf_st exampleGroup (ns_rdf ''type'') (ns_vcard ''Group'') exampleGraph,
      rdf_st exampleGroup (ns_rdf ''type'') (ns_vcard ''Group'') exampleIndex,
      rdf_st exampleGroup (ns_vcard ''fn'') (Literal ''Friends'') exampleGraph,
      rdf_st exampleGroup (ns_vcard ''fn'') (Literal ''Friends'') exampleIndex]"

definition bobTypedElsewhere :: statement where
  "bobTypedElsewhere =
     rdf_st (NamedNode bob) (ns_rdf ''type'') (ns_foaf ''Person'')
       (NamedNode ''https://alice.example/friends'')"

definition exampleOtherRegistration :: "statement list" where
  "exampleOtherRegistration =
     [rdf_st (NamedNode ''https://example.org/settings/publicTypeIndex.ttl#ab'')
        (ns_solid ''forClass'') (ns_vcard ''AddressBook'')
        (NamedNode ''https://example.org/settings/publicTypeIndex.ttl''),
      rdf_st (NamedNode ''https://example.org/settings/publicTypeIndex.ttl#ab'')
        (ns_solid ''instance'') (NamedNode ''https://example.org/profile/book.ttl#this'')
        (NamedNode ''https://example.org/settings/publicTypeIndex.ttl'')]"

section \<open>Facts about the store\<close>

lemma matches_all_given:
  "matches (Some s) (Some p) (Some ob) (Some g) = (\<lambda>st. rdf_st s p ob g = st)"
proof (rule ext)
  fix st show "matches (Some s) (Some p) (Some ob) (Some g) st = (rdf_st s p ob g = st)"
    by (cases st) (auto simp: matches_def rdf_st_def)
qed

lemma length_match_count:
  "length (kb_match (Some s) (Some p) (Some ob) (Some g) kb) = count_list kb (rdf_st s p ob g)"
  by (simp add: kb_match_def statementsMatching_def matches_all_given count_list_eq_length_filter)

lemma kb_any_SomeD:
  assumes "kb_any s p kb = Some ob"
  shows "\<exists>st\<in>set kb. subject st = s \<and> predicate st = p \<and> object st = ob"
proof -
  from assms obtain st sts where
    f: "filter (matches (Some s) (Some p) None None) kb = st # sts" and ob: "object st = ob"
    by (auto simp: kb_any_def statementsMatching_def split: list.splits)
  from f have "st \<in> set (filter (matches (Some s) (Some p) None None) kb)" by simp
  then have "st \<in> set kb" "matches (Some s) (Some p) None None st" by auto
  with ob show ?thesis by (auto simp: matches_def)
qed

section \<open>Properties of GroupPicker.loadGroups\<close>

text \<open>
  C9: after a successful fetch of the group index, loadGroups resolves with the
  objects of exactly those statements of the store whose subject is the address
  book's root node (base URL followed by \<^verbatim>\<open>book.ttl#this\<close>) and whose predicate is
  \<^verbatim>\<open>includesGroup\<close>, in the order in which the store holds them.
\<close>

theorem loadGroups_includesGroup_objects:
  "loadGroups gp True err kb =
     Resolved
       (map object
          (filter
             (\<lambda>st. subject st = NamedNode (gp_bookBaseUrl gp @ ''book.ttl#this'') \<and>
                   predicate st = NamedNode (''http://www.w3.org/2006/vcard/ns#includesGroup''))
             kb))"
proof -
  have "matches (Some (NamedNode (gp_bookBaseUrl gp @ ''book.ttl#this'')))
          (Some (ns_vcard ''includesGroup'')) None None =
        (\<lambda>st. subject st = NamedNode (gp_bookBaseUrl gp @ ''book.ttl#this'') \<and>
              predicate st = NamedNode (''http://www.w3.org/2006/vcard/ns#includesGroup''))"
    by (auto simp: matches_def ns_vcard_def fun_eq_iff)
  then show ?thesis
    by (simp add: loadGroups_def kb_match_def statementsMatching_def)
qed

section \<open>Properties of GroupBuilder.add\<close>

lemma add_store:
  "w_kb (snd (add b webId True err w)) =
     (if count_list (w_kb w) (rdf_st (groupNode b) (ns_vcard ''hasMember'') (NamedNode webId) (groupGraph b)) = 0
      then w_kb w @ [rdf_st (groupNode b) (ns_vcard ''hasMember'') (NamedNode webId) (groupGraph b)]
      else w_kb w)"
  by (simp add: add_def Let_def length_match_count render_def onGroupChanged_def kb_add_def)

lemma add_store_failed:
  "w_kb (snd (add b webId False err w)) = w_kb w"
  by (simp add: add_def onGroupChanged_def)

lemma add_calls:
  "w_calls (snd (add b webId True err w)) =
     (if groupChangedCb b then w_calls w @ [(None, Some ''added'', Some (NamedNode webId))] else w_calls w)"
  by (simp add: add_def Let_def render_def onGroupChanged_def)

lemma add_promise:
  "fst (add b webId True err w) =
     (if kb_any (NamedNode webId) (ns_rdf ''type'') (w_kb w) = Some (ns_foaf ''Person'')
      then Resolved (NamedNode webId)
      else Rejected (Error ''Only people supported right now''))"
  by (auto simp add: add_def Let_def)

text \<open>
  C2, as stated, fails: the type check asks the store for the identifier's type
  in any graph. Here the only statement of the store comes from another
  document, so the identifier's own resource declares no type; that statement
  types the identifier a \<^verbatim>\<open>foaf:Person\<close>, and add resolves.
\<close>

theorem add_typed_elsewhere_counterexample:
  "map why [bobTypedElsewhere] = [NamedNode ''https://alice.example/friends''] \<and>
   add exampleBuilder bob True (Error ''unused'') (emptyWorld\<lparr>w_kb := [bobTypedElsewhere]\<rparr>) =
     (Resolved (NamedNode bob),
      \<lparr>w_kb = [bobTypedElsewhere, bobIsMember],
       w_element = [DropContainer [GroupNameLabel ''Untitled Group'', PersonDiv (NamedNode bob),
                                   DoneBuildingButton]],
       w_calls = [(None, Some ''added'', Some (NamedNode bob))]\<rparr>)"
  by (simp add: add_def Let_def bobTypedElsewhere_def emptyWorld_def exampleBuilder_def bob_def
      bobIsMember_def kb_any_def kb_match_def statementsMatching_def matches_def rdf_st_def
      kb_add_def onGroupChanged_def render_def getWithDefault_def
      exampleGroup_def exampleGraph_def ns_rdf_def ns_foaf_def ns_vcard_def)

text \<open>
  C2, amended: when the fetch of the identifier succeeds and no statement of the
  store, in whatever graph, declares the identifier a \<^verbatim>\<open>foaf:Person\<close>, the
  promise returned by add is rejected with the error
  \<^verbatim>\<open>Only people supported right now\<close>, and all the same the membership
  statement (group, hasMember, identifier, group graph) is on the store
  afterwards: where it was absent, add has appended it. The type check does not
  gate the mutation.
\<close>

theorem add_non_person_rejects_and_adds:
  assumes "\<forall>st\<in>set (w_kb w).
             subject st = NamedNode webId \<and> predicate st = ns_rdf ''type'' \<longrightarrow>
             object st \<noteq> ns_foaf ''Person''"
  shows "fst (add b webId True err w) = Rejected (Error ''Only people supported right now'') \<and>
         rdf_st (groupNode b) (ns_vcard ''hasMember'') (NamedNode webId) (groupGraph b)
           \<in> set (w_kb (snd (add b webId True err w))) \<and>
         (rdf_st (groupNode b) (ns_vcard ''hasMember'') (NamedNode webId) (groupGraph b)
            \<notin> set (w_kb w) \<longrightarrow>
          w_kb (snd (add b webId True err w)) =
            w_kb w @ [rdf_st (groupNode b) (ns_vcard ''hasMember'') (NamedNode webId) (groupGraph b)])"
proof -
  have "kb_any (NamedNode webId) (ns_rdf ''type'') (w_kb w) \<noteq> Some (ns_foaf ''Person'')"
    using assms kb_any_SomeD by blast
  then have "fst (add b webId True err w) = Rejected (Error ''Only people supported right now'')"
    by (simp add: add_promise)
  moreover have "rdf_st (groupNode b) (ns_vcard ''hasMember'') (NamedNode webId) (groupGraph b)
           \<in> set (w_kb (snd (add b webId True err w)))"
    by (simp add: add_store count_list_0_iff)
  moreover have "rdf_st (groupNode b) (ns_vcard ''hasMember'') (NamedNode webId) (groupGraph b)
            \<notin> set (w_kb w) \<longrightarrow>
          w_kb (snd (add b webId True err w)) =
            w_kb w @ [rdf_st (groupNode b) (ns_vcard ''hasMember'') (NamedNode webId) (groupGraph b)]"
    by (simp add: add_store count_list_0_iff)
  ultimately show ?thesis by blast
qed

theorem add_non_person_witness:
  "fst (add exampleBuilder bob True (Error ''unused'') (emptyWorld\<lparr>w_kb := [bobName]\<rparr>)) =
     Rejected (Error ''Only people supported right now'') \<and>
   w_kb (snd (add exampleBuilder bob True (Error ''unused'') (emptyWorld\<lparr>w_kb := [bobName]\<rparr>))) =
     [bobName, bobIsMember]"
proof -
  have h: "\<forall>st\<in>set (w_kb (emptyWorld\<lparr>w_kb := [bobName]\<rparr>)).
             subject st = NamedNode bob \<and> predicate st = ns_rdf ''type'' \<longrightarrow>
             object st \<noteq> ns_foaf ''Person''"
    by (simp add: bobName_def rdf_st_def ns_rdf_def ns_foaf_def)
  have n: "rdf_st (groupNode exampleBuilder) (ns_vcard ''hasMember'') (NamedNode bob) (groupGraph exampleBuilder)
            \<notin> set (w_kb (emptyWorld\<lparr>w_kb := [bobName]\<rparr>))"
    by (simp add: bobName_def rdf_st_def ns_vcard_def ns_foaf_def)
  show ?thesis
    using add_non_person_rejects_and_adds[OF h, of exampleBuilder "Error ''unused''"] n
    by (simp add: bobIsMember_def exampleBuilder_def)
qed

text \<open>
  C3: add is idempotent on membership. On a store that holds the membership
  statement (group, hasMember, identifier, group graph) at most once, one add
  whose fetch succeeds leaves exactly one such statement, a second add with the
  same identifier leaves the store as the first left it, and whatever the two
  fetches answer there are never two.
\<close>

theorem add_twice_one_membership:
  assumes "count_list (w_kb w)
             (rdf_st (groupNode b) (ns_vcard ''hasMember'') (NamedNode webId) (groupGraph b)) \<le> 1"
  shows "count_list (w_kb (snd (add b webId True e1 w)))
           (rdf_st (groupNode b) (ns_vcard ''hasMember'') (NamedNode webId) (groupGraph b)) = 1 \<and>
         w_kb (snd (add b webId True e2 (snd (add b webId True e1 w)))) =
           w_kb (snd (add b webId True e1 w)) \<and>
         count_list (w_kb (snd (add b webId ok2 e2 (snd (add b webId ok1 e1 w)))))
           (rdf_st (groupNode b) (ns_vcard ''hasMember'') (NamedNode webId) (groupGraph b)) \<le> 1"
proof -
  let ?m = "rdf_st (groupNode b) (ns_vcard ''hasMember'') (NamedNode webId) (groupGraph b)"
  have one: "\<And>(w'::world) e. count_list (w_kb w') ?m \<le> 1 \<Longrightarrow>
               count_list (w_kb (snd (add b webId True e w'))) ?m = 1"
    by (simp add: add_store)
  have le: "\<And>(w'::world) ok e. count_list (w_kb w') ?m \<le> 1 \<Longrightarrow>
               count_list (w_kb (snd (add b webId ok e w'))) ?m \<le> 1"
  proof -
    fix w' :: world and ok e assume "count_list (w_kb w') ?m \<le> 1"
    then show "count_list (w_kb (snd (add b webId ok e w'))) ?m \<le> 1"
      by (cases ok) (simp_all add: add_store add_store_failed)
  qed
  have first: "count_list (w_kb (snd (add b webId True e1 w))) ?m = 1"
    using assms by (rule one)
  then have same: "w_kb (snd (add b webId True e2 (snd (add b webId True e1 w)))) =
           w_kb (snd (add b webId True e1 w))"
    by (simp add: add_store[of b webId e2])
  from le[OF le[OF assms]] first same show ?thesis by blast
qed

theorem add_twice_witness:
  "count_list (w_kb (snd (add exampleBuilder bob True (Error ''unused'') emptyWorld))) bobIsMember = 1 \<and>
   w_kb (snd (add exampleBuilder bob True (Error ''unused'')
           (snd (add exampleBuilder bob True (Error ''unused'') emptyWorld)))) = [bobIsMember]"
proof -
  have h: "count_list (w_kb emptyWorld)
             (rdf_st (groupNode exampleBuilder) (ns_vcard ''hasMember'') (NamedNode bob)
                (groupGraph exampleBuilder)) \<le> 1"
    by (simp add: emptyWorld_def)
  have s: "w_kb (snd (add exampleBuilder bob True (Error ''unused'') emptyWorld)) = [bobIsMember]"
    by (simp add: add_store emptyWorld_def bobIsMember_def exampleBuilder_def)
  from add_twice_one_membership[OF h, of "Error ''unused''" "Error ''unused''" True True] s
  show ?thesis by (simp add: bobIsMember_def exampleBuilder_def)
qed

text \<open>
  C10: whenever the fetch of the identifier succeeds and a changed-callback was
  supplied, add calls it once with (null, 'added', member); this is so also when
  the member was already in the group, in which case the store is left as it
  was. The call does not tell a duplicate add from a real addition.
\<close>

theorem add_reports_added_on_duplicate:
  assumes "groupChangedCb b"
  shows "w_calls (snd (add b webId True err w)) =
           w_calls w @ [(None, Some ''added'', Some (NamedNode webId))] \<and>
         (rdf_st (groupNode b) (ns_vcard ''hasMember'') (NamedNode webId) (groupGraph b) \<in> set (w_kb w) \<longrightarrow>
            w_kb (snd (add b webId True err w)) = w_kb w)"
  using assms by (simp add: add_calls add_store count_list_0_iff)

theorem add_reports_added_witness:
  "w_calls (snd (add exampleBuilder bob True (Error ''unused'') (emptyWorld\<lparr>w_kb := [bobIsMember]\<rparr>))) =
     [(None, Some ''added'', Some (NamedNode bob))] \<and>
   w_kb (snd (add exampleBuilder bob True (Error ''unused'') (emptyWorld\<lparr>w_kb := [bobIsMember]\<rparr>))) =
     [bobIsMember]"
proof -
  have c: "groupChangedCb exampleBuilder" by (simp add: exampleBuilder_def)
  have m: "rdf_st (groupNode exampleBuilder) (ns_vcard ''hasMember'') (NamedNode bob)
             (groupGraph exampleBuilder) \<in> set (w_kb (emptyWorld\<lparr>w_kb := [bobIsMember]\<rparr>))"
    by (simp add: bobIsMember_def exampleBuilder_def)
  from add_reports_added_on_duplicate[OF c, of bob "Error ''unused''" "emptyWorld\<lparr>w_kb := [bobIsMember]\<rparr>"] m
  show ?thesis by (simp add: emptyWorld_def)
qed

section \<open>Properties of PeoplePicker.findGroupIndex\<close>

lemma bookSuffixAt_hash:
  assumes "bookSuffixAt r" "8 < length r"
  shows "r ! 8 = CHR ''#''"
proof -
  from assms(2) have "drop 8 r = r ! 8 # drop (Suc 8) r"
    by (rule Cons_nth_drop_Suc[symmetric])
  with assms(1) show ?thesis by (simp add: bookSuffixAt_def)
qed

lemma bookSuffixAt_long:
  assumes "bookSuffixAt r" "8 < length r"
  shows "take 9 r = ''book.ttl#''"
proof -
  have "take (Suc 8) r = take 8 r @ [r ! 8]"
    using assms(2) by (rule take_Suc_conv_app_nth)
  moreover have "take 8 r = ''book.ttl''" using assms(1) by (simp add: bookSuffixAt_def)
  ultimately show ?thesis using bookSuffixAt_hash[OF assms] by simp
qed

lemma not_bookSuffixAt_before:
  assumes "p \<noteq> []" and "\<not> (\<exists>c. p = ''book.ttl#'' @ c)"
  shows "\<not> bookSuffixAt (p @ ''book.ttl'' @ frag)"
proof
  assume m: "bookSuffixAt (p @ ''book.ttl'' @ frag)"
  let ?r = "p @ ''book.ttl'' @ frag"
  have len: "8 < length ?r" using assms(1) by (cases p) auto
  from bookSuffixAt_long[OF m len] have t9: "take 9 ?r = ''book.ttl#''" .
  show False
  proof (cases "9 \<le> length p")
    case True
    then have "take 9 ?r = take 9 p" by simp
    with t9 have "p = ''book.ttl#'' @ drop 9 p"
      by (metis append_take_drop_id)
    with assms(2) show False by blast
  next
    case False
    then have k: "8 - length p < 8" using assms(1) by (cases p) auto
    have "?r ! 8 = ''book.ttl'' ! (8 - length p)"
    proof -
      have "?r ! 8 = (''book.ttl'' @ frag) ! (8 - length p)"
        using False by (simp add: nth_append del: append.simps)
      also have "\<dots> = ''book.ttl'' ! (8 - length p)"
        using k by (subst nth_append) simp
      finally show ?thesis .
    qed
    moreover have "''book.ttl'' ! (8 - length p) \<in> set ''book.ttl''"
      using k by (intro nth_mem) simp
    moreover have "?r ! 8 = CHR ''#''"
      using m len by (rule bookSuffixAt_hash)
    ultimately show False by auto
  qed
qed

lemma replaceBookSuffix_strips:
  assumes "\<not> (\<exists>a c. pre = a @ ''book.ttl#'' @ c)"
    and "frag = [] \<or> (\<exists>f. frag = CHR ''#'' # f \<and> (\<forall>c\<in>set f. \<not> lineTerminator c))"
  shows "replaceBookSuffix (pre @ ''book.ttl'' @ frag) = pre"
  using assms(1)
proof (induction pre)
  case Nil
  have "bookSuffixAt (''book.ttl'' @ frag)" using assms(2)
    by (auto simp: bookSuffixAt_def list_all_iff)
  then show ?case by simp
next
  case (Cons x pre)
  have here: "\<not> (\<exists>c. x # pre = ''book.ttl#'' @ c)"
  proof
    assume "\<exists>c. x # pre = ''book.ttl#'' @ c"
    then obtain c where "x # pre = [] @ ''book.ttl#'' @ c" by auto
    with Cons.prems show False by blast
  qed
  have later: "\<not> (\<exists>a c. pre = a @ ''book.ttl#'' @ c)"
  proof
    assume "\<exists>a c. pre = a @ ''book.ttl#'' @ c"
    then obtain a c where "pre = a @ ''book.ttl#'' @ c" by blast
    then have "x # pre = (x # a) @ ''book.ttl#'' @ c" by simp
    with Cons.prems show False by blast
  qed
  have "\<not> bookSuffixAt ((x # pre) @ ''book.ttl'' @ frag)"
    using here by (intro not_bookSuffixAt_before) auto
  with Cons.IH[OF later] show ?case by simp
qed

lemma no_hash_no_marker:
  "CHR ''#'' \<notin> set pre \<Longrightarrow> \<not> (\<exists>a c. pre = a @ ''book.ttl#'' @ c)"
  by auto

lemma no_registration:
  assumes "\<forall>st\<in>set kb. \<not> (predicate st = ns_solid ''forClass'' \<and> object st = ns_vcard ''AddressBook'')"
  shows "statementsMatching None (Some (ns_solid ''forClass'')) (Some (ns_vcard ''AddressBook'')) None kb = []"
  using assms by (auto simp: statementsMatching_def matches_def filter_empty_conv)

lemma exampleRegistration_book:
  "statementsMatching None (Some (ns_solid ''forClass'')) (Some (ns_vcard ''AddressBook'')) None
     exampleRegistration = [exampleRegistration ! 0]"
  by (simp add: exampleRegistration_def statementsMatching_def matches_def rdf_st_def
      ns_solid_def ns_vcard_def)

lemma exampleRegistration_instance:
  "statementsMatching (Some (subject (exampleRegistration ! 0))) (Some (ns_solid ''instance'')) None None
     exampleRegistration = [exampleRegistration ! 1]"
  by (simp add: exampleRegistration_def statementsMatching_def matches_def rdf_st_def
      ns_solid_def ns_vcard_def)

text \<open>
  C5, as stated, fails: the registration is looked up on the whole store, with
  no graph given. Here every statement of the store comes from another
  document, so the type index that was fetched holds no registration; the store
  registers an address book all the same, and findGroupIndex resolves with the
  URLs derived from it.
\<close>

theorem findGroupIndex_registered_elsewhere_counterexample:
  "map why exampleOtherRegistration =
     [NamedNode ''https://example.org/settings/publicTypeIndex.ttl'',
      NamedNode ''https://example.org/settings/publicTypeIndex.ttl''] \<and>
   findGroupIndex exampleTypeIndex True (Error ''unused'') exampleOtherRegistration =
     \<lparr>requested = [''https://example.org/settings/privateTypeIndex.ttl''],
      settled =
        Resolved \<lparr>gi_bookBaseUrl = ''https://example.org/profile/'',
                  gi_groupIndexUrl = ''https://example.org/profile/groups.ttl'',
                  gi_groupContainerUrl = ''https://example.org/profile/Group/''\<rparr>\<rparr>"
  by (simp add: findGroupIndex_def Let_def exampleOtherRegistration_def exampleTypeIndex_def
      statementsMatching_def matches_def rdf_st_def ns_solid_def ns_vcard_def bookSuffixAt_def
      lineTerminator_def)

text \<open>
  C5, amended: when the type index has been fetched and no statement of the
  store, in whatever graph, registers a subject for the class
  \<^verbatim>\<open>vcard:AddressBook\<close>, findGroupIndex rejects with the error
  \<^verbatim>\<open>no address book registered in the solid type index\<close>. It derives no
  group-index URL, and the only URL it has handed to the fetcher is the type
  index: the group index is never fetched.
\<close>

theorem findGroupIndex_no_address_book:
  assumes "\<forall>st\<in>set kb. \<not> (predicate st = ns_solid ''forClass'' \<and> object st = ns_vcard ''AddressBook'')"
  shows "findGroupIndex typeIndexUrl True err kb =
           \<lparr>requested = [typeIndexUrl],
            settled = Rejected (Error ''no address book registered in the solid type index'')\<rparr>"
  using no_registration[OF assms] by (simp add: findGroupIndex_def)

theorem findGroupIndex_no_address_book_witness:
  "findGroupIndex exampleTypeIndex True (Error ''unused'') [bobName] =
     \<lparr>requested = [exampleTypeIndex],
      settled = Rejected (Error ''no address book registered in the solid type index'')\<rparr>"
proof -
  have "\<forall>st\<in>set [bobName]. \<not> (predicate st = ns_solid ''forClass'' \<and> object st = ns_vcard ''AddressBook'')"
    by (simp add: bobName_def rdf_st_def ns_solid_def ns_foaf_def)
  then show ?thesis by (rule findGroupIndex_no_address_book)
qed

text \<open>
  C6: let the instance URL of the first address-book registration end in
  \<^verbatim>\<open>book.ttl\<close>, or in \<^verbatim>\<open>book.ttl#\<close> and a fragment without line break, and
  let that suffix be the first of its kind (the text before it does not contain
  \<^verbatim>\<open>book.ttl#\<close>; so it is whenever the text before it has no \<^verbatim>\<open>#\<close>). Then
  findGroupIndex resolves with the URL stripped of the suffix, fragment
  included, as the base URL, with the base followed by \<^verbatim>\<open>groups.ttl\<close> as the
  group-index URL and the base followed by \<^verbatim>\<open>Group/\<close> as the group-container
  URL.
\<close>

theorem findGroupIndex_book_base:
  assumes "statementsMatching None (Some (ns_solid ''forClass''))
             (Some (ns_vcard ''AddressBook'')) None kb = r # rs"
    and "statementsMatching (Some (subject r)) (Some (ns_solid ''instance'')) None None kb = i # is"
    and "node_value (object i) = pre @ ''book.ttl'' @ frag"
    and "\<not> (\<exists>a c. pre = a @ ''book.ttl#'' @ c)"
    and "frag = [] \<or> (\<exists>f. frag = CHR ''#'' # f \<and> (\<forall>c\<in>set f. \<not> lineTerminator c))"
  shows "settled (findGroupIndex typeIndexUrl True err kb) =
           Resolved \<lparr>gi_bookBaseUrl = pre,
                     gi_groupIndexUrl = pre @ ''groups.ttl'',
                     gi_groupContainerUrl = pre @ ''Group/''\<rparr>"
proof -
  have "replaceBookSuffix (pre @ ''book.ttl'' @ frag) = pre"
    using assms(4,5) by (rule replaceBookSuffix_strips)
  with assms(3) have "replaceBookSuffix (node_value (object i)) = pre"
    by (simp only:)
  then show ?thesis
    using assms(1,2) by (simp add: findGroupIndex_def Let_def)
qed

theorem findGroupIndex_book_base_witness:
  "settled (findGroupIndex exampleTypeIndex True (Error ''unused'') exampleRegistration) =
     Resolved \<lparr>gi_bookBaseUrl = ''https://example.org/profile/'',
               gi_groupIndexUrl = ''https://example.org/profile/groups.ttl'',
               gi_groupContainerUrl = ''https://example.org/profile/Group/''\<rparr>"
proof -
  have u: "node_value (object (exampleRegistration ! 1)) =
             ''https://example.org/profile/'' @ ''book.ttl'' @ ''#this''"
    by (simp add: exampleRegistration_def rdf_st_def)
  have h: "\<not> (\<exists>a c. ''https://example.org/profile/'' = a @ ''book.ttl#'' @ c)"
    by (rule no_hash_no_marker) simp
  have f: "''#this'' = [] \<or> (\<exists>f. ''#this'' = CHR ''#'' # f \<and> (\<forall>c\<in>set f. \<not> lineTerminator c))"
    by (simp add: lineTerminator_def)
  from findGroupIndex_book_base[OF exampleRegistration_book exampleRegistration_instance u h f]
  show ?thesis by simp
qed

section \<open>Properties of PeoplePicker.createNewGroup\<close>

lemma createNewGroup_patches:
  "patches (createNewGroup base u graphOutcome indexOutcome indexSettlesFirst kb) =
     [\<lparr>patch_url = base @ ''Group/'' @ take 8 u @ ''.ttl'', toDelete = [],
       toInsert = groupStatements (NamedNode ((base @ ''Group/'' @ take 8 u @ ''.ttl'') @ ''#this''))
                    (NamedNode (base @ ''Group/'' @ take 8 u @ ''.ttl''))\<rparr>,
      \<lparr>patch_url = base @ ''groups.ttl'', toDelete = [],
       toInsert = groupStatements (NamedNode ((base @ ''Group/'' @ take 8 u @ ''.ttl'') @ ''#this''))
                    (NamedNode (base @ ''groups.ttl''))\<rparr>]"
  by (simp add: createNewGroup_def Let_def)

lemma createNewGroup_created:
  "created (createNewGroup base u graphOutcome indexOutcome indexSettlesFirst kb) =
     (case firstRejection
             (if indexSettlesFirst then [patchPromise indexOutcome, patchPromise graphOutcome]
              else [patchPromise graphOutcome, patchPromise indexOutcome]) of
        None \<Rightarrow>
          Resolved \<lparr>ng_groupNode = NamedNode ((base @ ''Group/'' @ take 8 u @ ''.ttl'') @ ''#this''),
                    ng_groupGraphNode = NamedNode (base @ ''Group/'' @ take 8 u @ ''.ttl'')\<rparr>
      | Some err \<Rightarrow> Rejected (createGroupError err))"
  by (simp add: createNewGroup_def Let_def split: option.split)

text \<open>
  C1, as stated, fails: with the PATCH of the group's own resource failing and
  the PATCH of the group index succeeding, the request to the group index is
  sent all the same, and its two statements are mirrored into the store.
\<close>

theorem createNewGroup_index_patch_still_sent:
  "map patch_url
     (patches (createNewGroup exampleBase exampleUuid
                 (PatchFailed ''https://example.org/profile/Group/110ec58a.ttl'') PatchOk False [])) =
     [''https://example.org/profile/Group/110ec58a.ttl'', ''https://example.org/profile/groups.ttl''] \<and>
   kb_after (createNewGroup exampleBase exampleUuid
               (PatchFailed ''https://example.org/profile/Group/110ec58a.ttl'') PatchOk False []) =
     groupStatements exampleGroup exampleIndex"
  by (simp add: createNewGroup_def Let_def exampleBase_def exampleUuid_def exampleGroup_def
      exampleIndex_def mirror_def kb_add_all_def kb_add_def groupStatements_def)

text \<open>
  C1, amended: createNewGroup always sends both PATCH requests, the one to the
  group's own resource first and the one to the group index second, whatever
  their outcomes. When the PATCH of the own resource fails, and the PATCH of the
  index succeeds or fails later, createNewGroup rejects with the error
  \<^verbatim>\<open>Couldn't create new group.  PATCH failed for (URL)\<close>, where URL is the
  response URL of the failed request to the own resource.
\<close>

theorem createNewGroup_own_graph_failure:
  assumes "graphOutcome = PatchFailed responseURL"
    and "indexOutcome = PatchOk \<or> \<not> indexSettlesFirst"
  shows "map patch_url (patches (createNewGroup base u graphOutcome indexOutcome indexSettlesFirst kb)) =
           [base @ ''Group/'' @ take 8 u @ ''.ttl'', base @ ''groups.ttl''] \<and>
         created (createNewGroup base u graphOutcome indexOutcome indexSettlesFirst kb) =
           Rejected (Error (''Couldn't create new group.  PATCH failed for ('' @ responseURL @ '')''))"
proof -
  have "created (createNewGroup base u graphOutcome indexOutcome indexSettlesFirst kb) =
           Rejected (Error (''Couldn't create new group.  PATCH failed for ('' @ responseURL @ '')''))"
    using assms
    by (auto simp add: createNewGroup_created patchPromise_def createGroupError_def)
  then show ?thesis by (simp add: createNewGroup_patches)
qed

theorem createNewGroup_own_graph_failure_witness:
  "map patch_url
     (patches (createNewGroup exampleBase exampleUuid
                 (PatchFailed ''https://example.org/profile/Group/110ec58a.ttl'') PatchOk True [])) =
     [''https://example.org/profile/Group/110ec58a.ttl'', ''https://example.org/profile/groups.ttl''] \<and>
   created (createNewGroup exampleBase exampleUuid
              (PatchFailed ''https://example.org/profile/Group/110ec58a.ttl'') PatchOk True []) =
     Rejected (Error ''Couldn't create new group.  PATCH failed for (https://example.org/profile/Group/110ec58a.ttl)'')"
proof -
  have a: "PatchFailed ''https://example.org/profile/Group/110ec58a.ttl'' =
             PatchFailed ''https://example.org/profile/Group/110ec58a.ttl''" by simp
  have b: "PatchOk = PatchOk \<or> \<not> True" by simp
  from createNewGroup_own_graph_failure[OF a b, of exampleBase exampleUuid "[]"]
  show ?thesis by (simp add: exampleBase_def exampleUuid_def)
qed

text \<open>
  C7: for every base URL and generated identifier, the group's resource URL is
  the base followed by \<^verbatim>\<open>Group/\<close>, the first eight characters of the identifier
  and \<^verbatim>\<open>.ttl\<close>. The first PATCH goes to that URL, both PATCHes insert
  statements about the node at that URL with the fragment \<^verbatim>\<open>#this\<close>, and when
  both succeed createNewGroup resolves with that node and that resource.
\<close>

theorem createNewGroup_group_url:
  "patches (createNewGroup base u graphOutcome indexOutcome indexSettlesFirst kb) =
     [\<lparr>patch_url = base @ ''Group/'' @ take 8 u @ ''.ttl'', toDelete = [],
       toInsert = groupStatements (NamedNode ((base @ ''Group/'' @ take 8 u @ ''.ttl'') @ ''#this''))
                    (NamedNode (base @ ''Group/'' @ take 8 u @ ''.ttl''))\<rparr>,
      \<lparr>patch_url = base @ ''groups.ttl'', toDelete = [],
       toInsert = groupStatements (NamedNode ((base @ ''Group/'' @ take 8 u @ ''.ttl'') @ ''#this''))
                    (NamedNode (base @ ''groups.ttl''))\<rparr>] \<and>
   (graphOutcome = PatchOk \<and> indexOutcome = PatchOk \<longrightarrow>
      created (createNewGroup base u graphOutcome indexOutcome indexSettlesFirst kb) =
        Resolved \<lparr>ng_groupNode = NamedNode ((base @ ''Group/'' @ take 8 u @ ''.ttl'') @ ''#this''),
                  ng_groupGraphNode = NamedNode (base @ ''Group/'' @ take 8 u @ ''.ttl'')\<rparr>)"
  by (simp add: createNewGroup_patches createNewGroup_created patchPromise_def)

theorem createNewGroup_group_url_witness:
  "map patch_url (patches (createNewGroup exampleBase exampleUuid PatchOk PatchOk False [])) =
     [''https://example.org/profile/Group/110ec58a.ttl'', ''https://example.org/profile/groups.ttl''] \<and>
   created (createNewGroup exampleBase exampleUuid PatchOk PatchOk False []) =
     Resolved \<lparr>ng_groupNode = exampleGroup, ng_groupGraphNode = exampleGraph\<rparr>"
  using createNewGroup_group_url[of exampleBase exampleUuid PatchOk PatchOk False "[]"]
  by (simp add: exampleBase_def exampleUuid_def exampleGroup_def exampleGraph_def)

section \<open>Properties of GroupBuilder.setGroupName\<close>

lemma setGroupName_forEach_replaces:
  assumes "\<forall>x\<in>set pre. \<not> matches (Some (groupNode b)) (Some (ns_vcard ''fn'')) None None x"
  shows "setGroupName_forEach b name
           (filter (matches (Some (groupNode b)) (Some (ns_vcard ''fn'')) None None) kb)
           (pre @ kb @ acc) =
         Inr (pre @ filter (\<lambda>st. \<not> matches (Some (groupNode b)) (Some (ns_vcard ''fn'')) None None st) kb
              @ acc @
              map (\<lambda>st. rdf_st (groupNode b) (ns_vcard ''fn'') (Literal name) (why st))
                (filter (matches (Some (groupNode b)) (Some (ns_vcard ''fn'')) None None) kb))"
  using assms
proof (induction kb arbitrary: pre acc)
  case Nil
  then show ?case by simp
next
  case (Cons x xs)
  let ?P = "matches (Some (groupNode b)) (Some (ns_vcard ''fn'')) None None"
  show ?case
  proof (cases "?P x")
    case False
    have "\<forall>y\<in>set (pre @ [x]). \<not> ?P y" using Cons.prems False by auto
    from Cons.IH[OF this, of acc] False show ?thesis by simp
  next
    case True
    have notin: "x \<notin> set pre" using Cons.prems True by auto
    have rm: "kb_remove x (pre @ (x # xs) @ acc) = Inr (pre @ xs @ acc)"
      using notin by (simp add: kb_remove_def remove1_append)
    from Cons.IH[OF Cons.prems, of "acc @ [rdf_st (groupNode b) (ns_vcard ''fn'') (Literal name) (why x)]"]
    show ?thesis using True rm by (simp add: kb_add_def)
  qed
qed

lemma matches_subject_predicate:
  "matches (Some s) (Some p) None None = (\<lambda>st. subject st = s \<and> predicate st = p)"
  by (auto simp: matches_def fun_eq_iff)

lemma setGroupName_result:
  "setGroupName b name kb =
     Inr (filter (\<lambda>st. \<not> (subject st = groupNode b \<and> predicate st = ns_vcard ''fn'')) kb @
          map (\<lambda>st. rdf_st (groupNode b) (ns_vcard ''fn'') (Literal name) (why st))
            (filter (\<lambda>st. subject st = groupNode b \<and> predicate st = ns_vcard ''fn'') kb))"
  using setGroupName_forEach_replaces[of "[]" b name kb "[]"]
  by (simp add: setGroupName_def kb_match_def statementsMatching_def matches_subject_predicate)

text \<open>
  C4, as stated, fails: on the store that createNewGroup leaves, which names the
  group in its own graph and in the group index, renaming the group gives two
  name statements for the node, one in each graph.
\<close>

theorem setGroupName_two_names_counterexample:
  "setGroupName exampleBuilder ''Friends''
     (kb_after (createNewGroup exampleBase exampleUuid PatchOk PatchOk False [])) =
     Inr exampleRenamed \<and>
   kb_match (Some exampleGroup) (Some (ns_vcard ''fn'')) None None exampleRenamed =
     [rdf_st exampleGroup (ns_vcard ''fn'') (Literal ''Friends'') exampleGraph,
      rdf_st exampleGroup (ns_vcard ''fn'') (Literal ''Friends'') exampleIndex]"
proof -
  have created: "kb_after (createNewGroup exampleBase exampleUuid PatchOk PatchOk False []) =
      groupStatements exampleGroup exampleGraph @ groupStatements exampleGroup exampleIndex"
    by (simp add: createNewGroup_def Let_def exampleBase_def exampleUuid_def exampleGroup_def
        exampleIndex_def exampleGraph_def mirror_def kb_add_all_def kb_add_def groupStatements_def)
  show ?thesis
    unfolding created
    by (simp add: setGroupName_def kb_match_def statementsMatching_def matches_def kb_remove_def
        kb_add_def exampleRenamed_def exampleBuilder_def groupStatements_def rdf_st_def
        exampleGroup_def exampleGraph_def exampleIndex_def ns_vcard_def ns_rdf_def)
qed

text \<open>
  C4, amended: for every store and every new name, setGroupName succeeds and
  leaves every statement that is not a name statement of the group node in
  place. The name statements of the node after the rename are exactly the
  replacements of the prior ones, each with the new literal value and the graph
  of the statement it replaces: every name statement of the node carries the new
  value, and the graphs that name the node are those that named it before. A
  node named in two graphs keeps a name statement in each.
\<close>

theorem setGroupName_names_replaced:
  "\<exists>kb'. setGroupName b name kb = Inr kb' \<and>
     filter (\<lambda>st. \<not> (subject st = groupNode b \<and> predicate st = ns_vcard ''fn'')) kb' =
       filter (\<lambda>st. \<not> (subject st = groupNode b \<and> predicate st = ns_vcard ''fn'')) kb \<and>
     set (filter (\<lambda>st. subject st = groupNode b \<and> predicate st = ns_vcard ''fn'') kb') =
       (\<lambda>st. rdf_st (groupNode b) (ns_vcard ''fn'') (Literal name) (why st)) `
         set (filter (\<lambda>st. subject st = groupNode b \<and> predicate st = ns_vcard ''fn'') kb) \<and>
     why ` set (filter (\<lambda>st. subject st = groupNode b \<and> predicate st = ns_vcard ''fn'') kb') =
       why ` set (filter (\<lambda>st. subject st = groupNode b \<and> predicate st = ns_vcard ''fn'') kb)"
proof -
  let ?isName = "\<lambda>st. subject st = groupNode b \<and> predicate st = ns_vcard ''fn''"
  let ?repl = "\<lambda>st. rdf_st (groupNode b) (ns_vcard ''fn'') (Literal name) (why st)"
  let ?kb' = "filter (\<lambda>st. \<not> ?isName st) kb @ map ?repl (filter ?isName kb)"
  have others: "filter (\<lambda>st. \<not> ?isName st) ?kb' = filter (\<lambda>st. \<not> ?isName st) kb"
    by (simp add: filter_map o_def rdf_st_def)
  have names: "filter ?isName ?kb' = map ?repl (filter ?isName kb)"
  proof -
    have "filter ?isName (filter (\<lambda>st. \<not> ?isName st) kb) = []"
      by (simp add: filter_empty_conv)
    moreover have "filter ?isName (map ?repl (filter ?isName kb)) = map ?repl (filter ?isName kb)"
      by (simp add: filter_map o_def rdf_st_def)
    ultimately show ?thesis by (simp only: filter_append append_Nil)
  qed
  have graphs: "why ` set (map ?repl (filter ?isName kb)) = why ` set (filter ?isName kb)"
    by (simp add: image_image rdf_st_def)
  show ?thesis
  proof (intro exI conjI)
    show "setGroupName b name kb = Inr ?kb'" by (rule setGroupName_result)
    show "filter (\<lambda>st. \<not> ?isName st) ?kb' = filter (\<lambda>st. \<not> ?isName st) kb" by (rule others)
    show "set (filter ?isName ?kb') = ?repl ` set (filter ?isName kb)"
      by (simp only: names set_map)
    show "why ` set (filter ?isName ?kb') = why ` set (filter ?isName kb)"
      by (simp only: names graphs)
  qed
qed

section \<open>Properties of GroupBuilder.handleRemove\<close>

lemma render_keeps:
  "w_kb (render b w) = w_kb w" "w_calls (render b w) = w_calls w"
  by (simp_all add: render_def Let_def)

lemma render_element:
  "w_kb w' = w_kb w \<Longrightarrow> w_element (render b w') = w_element (render b w)"
  by (simp add: render_def Let_def)

lemma render_no_error:
  "\<not> list_ex isErrorMessageBlock (w_element (render b w))"
  by (simp add: render_def Let_def)

lemma handleRemove_try_absent:
  assumes "rdf_st (groupNode b) (ns_vcard ''hasMember'') webIdNode (groupGraph b) \<notin> set (w_kb w)"
  shows "handleRemove_try b webIdNode w =
           w\<lparr>w_element := w_element w @
               [ErrorMessageBlock
                  (escape (''Could not remove '' @
                     (case kb_any webIdNode (ns_foaf ''name'') (w_kb w) of
                        Some n \<Rightarrow> if node_value n \<noteq> [] then node_value n else node_value webIdNode
                      | None \<Rightarrow> node_value webIdNode)))]\<rparr>"
  using assms by (simp add: handleRemove_try_def kb_remove_def Let_def split: option.split)

text \<open>
  C8: for a member that no membership statement in the group's graph relates to
  the group, the claim asks that the remove handler show an error naming the
  member and leave the store unchanged. The store and the changed-callback are
  indeed left as they were, and the \<^verbatim>\<open>catch\<close> branch does append an error
  block; but the re-rendering that follows empties the element, so that when the
  handler returns the pane is the one a plain re-rendering gives and holds no
  error block.
\<close>

theorem handleRemove_absent_member_error_erased:
  assumes "rdf_st (groupNode b) (ns_vcard ''hasMember'') webIdNode (groupGraph b) \<notin> set (w_kb w)"
  shows "list_ex isErrorMessageBlock (w_element (handleRemove_try b webIdNode w)) \<and>
         \<not> list_ex isErrorMessageBlock (w_element (handleRemove b webIdNode w)) \<and>
         w_element (handleRemove b webIdNode w) = w_element (render b w) \<and>
         w_kb (handleRemove b webIdNode w) = w_kb w \<and>
         w_calls (handleRemove b webIdNode w) = w_calls w"
proof -
  note t = handleRemove_try_absent[OF assms]
  have "list_ex isErrorMessageBlock (w_element (handleRemove_try b webIdNode w))"
    by (simp add: t)
  moreover have "\<not> list_ex isErrorMessageBlock (w_element (handleRemove b webIdNode w))"
    unfolding handleRemove_def by (rule render_no_error)
  moreover have "w_element (handleRemove b webIdNode w) = w_element (render b w)"
    unfolding handleRemove_def by (rule render_element) (simp add: t)
  moreover have "w_kb (handleRemove b webIdNode w) = w_kb w"
    by (simp add: handleRemove_def render_keeps t)
  moreover have "w_calls (handleRemove b webIdNode w) = w_calls w"
    by (simp add: handleRemove_def render_keeps t)
  ultimately show ?thesis by blast
qed

theorem handleRemove_absent_member_witness:
  "w_element (handleRemove_try exampleBuilder (NamedNode bob) (emptyWorld\<lparr>w_kb := [bobName]\<rparr>)) =
     [ErrorMessageBlock ''Could not remove Bob''] \<and>
   handleRemove exampleBuilder (NamedNode bob) (emptyWorld\<lparr>w_kb := [bobName]\<rparr>) =
     \<lparr>w_kb = [bobName],
      w_element = [DropContainer [GroupNameLabel ''Untitled Group'', Copy, DoneBuildingButton]],
      w_calls = []\<rparr>"
proof -
  have a: "rdf_st (groupNode exampleBuilder) (ns_vcard ''hasMember'') (NamedNode bob)
             (groupGraph exampleBuilder) \<notin> set (w_kb (emptyWorld\<lparr>w_kb := [bobName]\<rparr>))"
    by (simp add: bobName_def rdf_st_def ns_vcard_def ns_foaf_def)
  have n: "kb_any (NamedNode bob) (ns_foaf ''name'') [bobName] = Some (Literal ''Bob'')"
    by (simp add: kb_any_def statementsMatching_def matches_def bobName_def rdf_st_def)
  have e: "escape ''Could not remove Bob'' = ''Could not remove Bob''"
    by (simp add: escape_def escapeChar_def)
  have t: "w_element (handleRemove_try exampleBuilder (NamedNode bob) (emptyWorld\<lparr>w_kb := [bobName]\<rparr>)) =
     [ErrorMessageBlock ''Could not remove Bob'']"
    using handleRemove_try_absent[OF a] n e by (simp add: emptyWorld_def)
  have r: "w_element (render exampleBuilder (emptyWorld\<lparr>w_kb := [bobName]\<rparr>)) =
      [DropContainer [GroupNameLabel ''Untitled Group'', Copy, DoneBuildingButton]]"
    by (simp add: render_def Let_def getWithDefault_def kb_any_def statementsMatching_def matches_def
        bobName_def rdf_st_def exampleBuilder_def exampleGroup_def ns_vcard_def ns_foaf_def emptyWorld_def)
  from handleRemove_absent_member_error_erased[OF a] t r show ?thesis
    by (simp add: emptyWorld_def)
qed

end
